theory Spec2Isabelle
  imports Complex_Main
begin

section \<open>Python values used by the views and serializers\<close>

subsection \<open>Decimal numbers\<close>

text \<open>
  \<^verbatim>\<open>IngredientAmount.amount\<close> is a \<^verbatim>\<open>DecimalField\<close>, so the rows read back by
  \<^verbatim>\<open>download_cart\<close> carry Python \<^verbatim>\<open>decimal.Decimal\<close> values.  A finite Decimal is a
  signed integer coefficient and an exponent: \<open>Decimal c e\<close> denotes \<open>c * 10 ^ e\<close>, so
  \<^verbatim>\<open>Decimal('2.50')\<close> is \<open>Decimal 250 (- 2)\<close>.  (Negative zero, infinities and
  NaN do not occur in a numeric column and are left out.)
\<close>

datatype decimal = Decimal (dcoef: int) (dexp: int)

text \<open>The number of decimal digits of a coefficient (\<^verbatim>\<open>len(self._int)\<close>; zero has one digit).\<close>

function ndigits :: "nat \<Rightarrow> nat" where
  "ndigits n = (if n < 10 then 1 else Suc (ndigits (n div 10)))"
  by pat_completeness auto
termination
  by (relation "measure id") auto

declare ndigits.simps [simp del]

text \<open>The precision of Python's default decimal context.\<close>

definition prec :: nat where
  "prec = 28"

text \<open>
  Dropping the last \<open>k\<close> digits of a coefficient with the default rounding mode
  \<^verbatim>\<open>ROUND_HALF_EVEN\<close>.
\<close>

definition round_half_even :: "nat \<Rightarrow> nat \<Rightarrow> nat" where
  "round_half_even n k =
     (let q = n div 10 ^ k; r = n mod 10 ^ k; h = 5 * 10 ^ (k - 1)
      in if h < r \<or> (r = h \<and> odd q) then q + 1 else q)"

text \<open>
  \<^verbatim>\<open>Decimal._fix\<close>: a result with more than \<open>prec\<close> digits is rounded to \<open>prec\<close>
  digits and its exponent raised; anything shorter is returned as it is.  (The exponent
  limits \<^verbatim>\<open>Emin\<close>/\<^verbatim>\<open>Emax\<close> of the context, at about \<open>10 ^ 6\<close>, are not modelled.)
\<close>

definition fix_decimal :: "decimal \<Rightarrow> decimal" where
  "fix_decimal d =
     (let m = nat \<bar>dcoef d\<bar>; n = ndigits m
      in if n \<le> prec then d
         else let k = n - prec; q = round_half_even m k
              in if q = 10 ^ prec
                 then Decimal (sgn (dcoef d) * 10 ^ (prec - 1)) (dexp d + int k + 1)
                 else Decimal (sgn (dcoef d) * int q) (dexp d + int k))"

text \<open>
  \<^verbatim>\<open>Decimal.__add__\<close>: both operands are brought to the smaller exponent, the
  coefficients are added as integers, and the sum is rounded to the context precision.
\<close>

definition dec_add :: "decimal \<Rightarrow> decimal \<Rightarrow> decimal" where
  "dec_add a b =
     (let e = min (dexp a) (dexp b);
          c = dcoef a * 10 ^ nat (dexp a - e) + dcoef b * 10 ^ nat (dexp b - e)
      in fix_decimal (Decimal c e))"

subsection \<open>Converting numbers to text\<close>

text \<open>\<^verbatim>\<open>str(i)\<close> for a non-negative integer.\<close>

function str_nat :: "nat \<Rightarrow> string" where
  "str_nat n =
     (if n < 10 then [''0123456789'' ! n]
      else str_nat (n div 10) @ [''0123456789'' ! (n mod 10)])"
  by pat_completeness auto
termination
  by (relation "measure id") auto

declare str_nat.simps [simp del]

text \<open>
  \<^verbatim>\<open>Decimal.__str__\<close> (which an f-string uses for a Decimal without a format
  specification): plain notation when the exponent is at most zero and the number is not
  too small, scientific notation otherwise.
\<close>

definition str_decimal :: "decimal \<Rightarrow> string" where
  "str_decimal d =
     (let sign = (if dcoef d < 0 then ''-'' else []);
          ds = str_nat (nat \<bar>dcoef d\<bar>);
          leftdigits = dexp d + int (length ds);
          dotplace = (if dexp d \<le> 0 \<and> - 6 < leftdigits then leftdigits else 1);
          mantissa =
            (if dotplace \<le> 0 then ''0.'' @ replicate (nat (- dotplace)) (CHR ''0'') @ ds
             else if int (length ds) \<le> dotplace
               then ds @ replicate (nat (dotplace - int (length ds))) (CHR ''0'')
             else take (nat dotplace) ds @ ''.'' @ drop (nat dotplace) ds);
          ex = (if leftdigits = dotplace then []
                else ''E'' @ (if leftdigits - dotplace < 0 then ''-'' else ''+'')
                     @ str_nat (nat \<bar>leftdigits - dotplace\<bar>))
      in sign @ mantissa @ ex)"

section \<open>The store (\<^verbatim>\<open>recipes/models.py\<close>)\<close>

text \<open>
  Each model is a record of its columns and each table a list of rows in the order the
  database returns them.  Foreign keys are stored as the primary key they refer to.
\<close>

record Ingredient =
  ingredient_id :: nat
  ingredient_name :: string
  ingredient_unit :: string

record Recipe =
  recipe_id :: nat
  recipe_author :: nat
  recipe_name :: string
  recipe_image :: string
  recipe_text :: string
  recipe_time :: nat
  recipe_pub_date :: nat

record IngredientAmount =
  amount_recipe :: nat
  amount_ingredient :: nat
  amount_amount :: decimal

text \<open>\<^verbatim>\<open>Favorite\<close> and \<^verbatim>\<open>Cart\<close> have the same two columns.\<close>

record membership =
  membership_user :: nat
  membership_recipe :: nat

record store =
  ingredient_rows :: "Ingredient list"
  recipe_rows :: "Recipe list"
  amount_rows :: "IngredientAmount list"
  favorite_rows :: "membership list"
  cart_rows :: "membership list"

section \<open>The shopping list (\<^verbatim>\<open>RecipeViewSet.download_cart\<close>)\<close>

subsection \<open>The query\<close>

text \<open>
  \<^verbatim>\<open>IngredientAmount.objects.filter(recipe__carts__user=user).values_list(
  'ingredient__name', 'ingredient__unit', 'amount')\<close> is an inner join of the amount rows
  with their recipe, with the cart rows of that recipe owned by the user, and with their
  ingredient: one triple per amount row and matching cart row.
\<close>

type_synonym item = "string \<times> string \<times> decimal"

definition cart_items :: "store \<Rightarrow> nat \<Rightarrow> item list" where
  "cart_items db user =
     concat (map (\<lambda>a.
       concat (map (\<lambda>r.
         concat (map (\<lambda>c.
           map (\<lambda>i. (ingredient_name i, ingredient_unit i, amount_amount a))
             (filter (\<lambda>i. ingredient_id i = amount_ingredient a) (ingredient_rows db)))
           (filter (\<lambda>c. membership_recipe c = recipe_id r \<and> membership_user c = user)
              (cart_rows db))))
         (filter (\<lambda>r. recipe_id r = amount_recipe a) (recipe_rows db))))
       (amount_rows db))"

subsection \<open>The aggregation loop\<close>

text \<open>
  \<^verbatim>\<open>final_list\<close> is a Python dict, which keeps its keys in insertion order: an
  association list with distinct keys.  A new key goes to the end; updating the amount of
  a key that is present leaves its position and its unit as they are.
\<close>

record entry =
  unit :: string
  amount :: decimal

type_synonym final_list = "(string \<times> entry) list"

definition add_item :: "final_list \<Rightarrow> item \<Rightarrow> final_list" where
  "add_item final item =
     (let name = fst item
      in if name \<notin> fst ` set final
         then final @ [(name, \<lparr>unit = fst (snd item), amount = snd (snd item)\<rparr>)]
         else map (\<lambda>(k, data).
                if k = name then (k, data\<lparr>amount := dec_add (amount data) (snd (snd item))\<rparr>)
                else (k, data)) final)"

definition aggregate :: "item list \<Rightarrow> final_list" where
  "aggregate items = foldl add_item [] items"

subsection \<open>What the loop computes, in the words of the specification\<close>

text \<open>The names of a list in the order in which each is first met.\<close>

primrec first_seen :: "'a list \<Rightarrow> 'a list" where
  "first_seen [] = []"
| "first_seen (x # xs) = x # filter (\<lambda>y. y \<noteq> x) (first_seen xs)"

text \<open>The rows of one name, in their order.\<close>

definition rows_of :: "string \<Rightarrow> item list \<Rightarrow> item list" where
  "rows_of name items = filter (\<lambda>item. fst item = name) items"

text \<open>
  The entry of a group: the unit of its first row, and its amounts added from the first
  row on.
\<close>

definition group_entry :: "item list \<Rightarrow> entry" where
  "group_entry rows =
     \<lparr>unit = fst (snd (hd rows)),
      amount = foldl dec_add (snd (snd (hd rows))) (map (\<lambda>item. snd (snd item)) (tl rows))\<rparr>"

definition grouped :: "item list \<Rightarrow> final_list" where
  "grouped items =
     map (\<lambda>name. (name, group_entry (rows_of name items))) (first_seen (map fst items))"

subsection \<open>Rendering\<close>

text \<open>
  The canvas records what is drawn, in order.  Coordinates are in points from the lower
  left corner of the page, so a string drawn at a negative height lies below the page.
\<close>

datatype canvas_op =
    SetFont string nat
  | DrawString int int string
  | ShowPage
  | Save

text \<open>The title, as the UTF-8 bytes of the Russian words for ``shopping list''.\<close>

definition title :: string where
  "title =
     [CHR 0xD0, CHR 0xA1, CHR 0xD0, CHR 0xBF, CHR 0xD0, CHR 0xB8, CHR 0xD1, CHR 0x81,
      CHR 0xD0, CHR 0xBE, CHR 0xD0, CHR 0xBA, CHR 0x20, CHR 0xD0, CHR 0xBF, CHR 0xD0,
      CHR 0xBE, CHR 0xD0, CHR 0xBA, CHR 0xD1, CHR 0x83, CHR 0xD0, CHR 0xBF, CHR 0xD0,
      CHR 0xBE, CHR 0xD0, CHR 0xBA]"

text \<open>The f-string \<^verbatim>\<open>f'{i}. {name} - {data["amount"]} {data["unit"]}'\<close>.\<close>

definition line_text :: "nat \<Rightarrow> string \<Rightarrow> entry \<Rightarrow> string" where
  "line_text i name data =
     str_nat i @ ''. '' @ name @ '' - '' @ str_decimal (amount data) @ '' '' @ unit data"

text \<open>
  The loop over \<^verbatim>\<open>enumerate(final_list.items(), 1)\<close>, with the counter \<open>i\<close> and the
  running \<open>height\<close> as its state.
\<close>

fun draw_lines :: "nat \<Rightarrow> int \<Rightarrow> final_list \<Rightarrow> canvas_op list" where
  "draw_lines i height [] = []"
| "draw_lines i height ((name, data) # rest) =
     DrawString 75 height (line_text i name data) # draw_lines (i + 1) (height - 25) rest"

definition render :: "final_list \<Rightarrow> canvas_op list" where
  "render final =
     [SetFont ''Handicraft'' 24, DrawString 200 800 title, SetFont ''Handicraft'' 16]
     @ draw_lines 1 750 final
     @ [ShowPage, Save]"

record pdf_response =
  content_type :: string
  content_disposition :: string
  content :: "canvas_op list"

definition download_cart :: "store \<Rightarrow> nat \<Rightarrow> pdf_response" where
  "download_cart db user =
     \<lparr>content_type = ''application/pdf'',
      content_disposition = ''attachment; filename=\"shopping_list.pdf\"'',
      content = render (aggregate (cart_items db user))\<rparr>"

text \<open>The pages of a document: one per \<^verbatim>\<open>showPage\<close>.\<close>

definition page_count :: "canvas_op list \<Rightarrow> nat" where
  "page_count ops = length (filter (\<lambda>op. op = ShowPage) ops)"

text \<open>A string drawn below the lower edge of the page.\<close>

fun below_page :: "canvas_op \<Rightarrow> bool" where
  "below_page (DrawString x y s) = (y < 0)"
| "below_page _ = False"

section \<open>Errors and responses\<close>

text \<open>
  The detail of a validation error is a dictionary with one key, the field, and one
  message.  The messages of the source are Russian sentences; each is a constructor
  here:
  \<^item> \<open>MinOneIngredient\<close>: ``at least 1 ingredient'';
  \<^item> \<open>IngredientsRepeat\<close>: ``ingredients must not repeat'';
  \<^item> \<open>MinAmount\<close>: ``the minimal value is 0.01'';
  \<^item> \<open>MinCookingTime\<close>: ``the minimal value is 1'';
  \<^item> \<open>MinOneTag\<close>: ``at least 1 tag'';
  \<^item> \<open>TagsRepeat\<close>: ``tags must not repeat'';
  \<^item> \<open>ValidIntegerRequired\<close>: the \<^verbatim>\<open>invalid\<close> message of an \<^verbatim>\<open>IntegerField\<close>.
\<close>

datatype message =
    MinOneIngredient
  | IngredientsRepeat
  | MinAmount
  | MinCookingTime
  | MinOneTag
  | TagsRepeat
  | ValidIntegerRequired

datatype exn =
    ValidationError string message
  | TypeError
  | AttributeError
  | Http404
  | IntegrityError
  | ImproperlyConfigured

datatype pyval = PInt int | PStr string

datatype response = Response (status_code: nat) (response_data: "(string \<times> pyval) list option")

section \<open>Field declarations\<close>

subsection \<open>\<^verbatim>\<open>AddIngredientSerializer.amount = serializers.IntegerField()\<close>\<close>

text \<open>
  An \<^verbatim>\<open>IntegerField\<close> turns the submitted value into text with \<^verbatim>\<open>str\<close>, removes a
  trailing decimal point followed by zeros only, and parses the rest as an integer;
  anything else is refused as \<^verbatim>\<open>invalid\<close>.  The argument is the numeral that
  \<^verbatim>\<open>str\<close> writes for the value: \<open>Decimal c e\<close> is the text of \<open>c * 10 ^ e\<close>, so
  \<^verbatim>\<open>'0.009'\<close> is \<open>Decimal 9 (- 3)\<close>, \<^verbatim>\<open>'2.0'\<close> is \<open>Decimal 20 (- 1)\<close> and \<^verbatim>\<open>'5'\<close> is
  \<open>Decimal 5 0\<close>.  A text with an exponent (\<open>0 < e\<close>, as \<^verbatim>\<open>str\<close> writes a float from
  \<^verbatim>\<open>1e16\<close> on) is not the text of an integer.
\<close>

definition IntegerField :: "string \<Rightarrow> decimal \<Rightarrow> exn + int" where
  "IntegerField field_name v =
     (if dexp v \<le> 0 \<and> dcoef v mod 10 ^ nat (- dexp v) = 0
      then Inr (dcoef v div 10 ^ nat (- dexp v))
      else Inl (ValidationError field_name ValidIntegerRequired))"

definition AddIngredientSerializer_amount :: "decimal \<Rightarrow> exn + int" where
  "AddIngredientSerializer_amount v = IntegerField ''amount'' v"

text \<open>The number a Decimal denotes.\<close>

definition dec_value :: "decimal \<Rightarrow> rat" where
  "dec_value v =
     (if 0 \<le> dexp v then of_int (dcoef v) * 10 ^ nat (dexp v)
      else of_int (dcoef v) / 10 ^ nat (- dexp v))"

section \<open>Recipe validation (\<^verbatim>\<open>RecipeSerializer\<close>)\<close>

text \<open>
  \<open>data\<close> is the dictionary the methods read with \<^verbatim>\<open>data.get\<close>: a key that is
  missing reads as \<^verbatim>\<open>None\<close>.  An ingredient line holds the ingredient (compared by its
  primary key) and the amount, an integer since it comes from the \<^verbatim>\<open>IntegerField\<close>
  above.  Tags are compared by primary key too.
\<close>

record ingredient_line =
  line_id :: nat
  line_amount :: int

record recipe_data =
  data_name :: "string option"
  data_text :: "string option"
  data_ingredients :: "ingredient_line list option"
  data_tags :: "nat list option"
  data_time :: "int option"
  data_cooking_time :: "int option"

text \<open>
  The loop of \<^verbatim>\<open>validate\<close> over the ingredient lines; \<open>ingredients_list\<close> holds the
  ingredients met so far.  The comparison \<^verbatim>\<open>amount < 0.01\<close> is between an integer and a
  float, which Python decides exactly.
\<close>

fun validate_ingredients :: "ingredient_line list \<Rightarrow> nat list \<Rightarrow> exn + unit" where
  "validate_ingredients [] ingredients_list = Inr ()"
| "validate_ingredients (ingredient # rest) ingredients_list =
     (if line_id ingredient \<in> set ingredients_list
      then Inl (ValidationError ''ingredients'' IngredientsRepeat)
      else if (of_int (line_amount ingredient) :: rat) < 1 / 100
      then Inl (ValidationError ''amount'' MinAmount)
      else validate_ingredients rest (ingredients_list @ [line_id ingredient]))"

text \<open>
  \<^verbatim>\<open>len(None)\<close> and \<^verbatim>\<open>None < 1\<close> raise \<^verbatim>\<open>TypeError\<close>.
\<close>

definition validate :: "recipe_data \<Rightarrow> exn + recipe_data" where
  "validate data =
     (case data_ingredients data of
        None \<Rightarrow> Inl TypeError
      | Some ingredients \<Rightarrow>
          if length ingredients = 0
          then Inl (ValidationError ''ingredients'' MinOneIngredient)
          else (case validate_ingredients ingredients [] of
                  Inl e \<Rightarrow> Inl e
                | Inr _ \<Rightarrow>
                    (case data_cooking_time data of
                       None \<Rightarrow> Inl TypeError
                     | Some cooking_time \<Rightarrow>
                         if cooking_time < 1
                         then Inl (ValidationError ''cooking_time'' MinCookingTime)
                         else Inr data)))"

fun validate_tags_loop :: "nat list \<Rightarrow> nat list \<Rightarrow> exn + unit" where
  "validate_tags_loop [] tags_list = Inr ()"
| "validate_tags_loop (tag # rest) tags_list =
     (if tag \<in> set tags_list then Inl (ValidationError ''tags'' TagsRepeat)
      else validate_tags_loop rest (tags_list @ [tag]))"

text \<open>
  \<^verbatim>\<open>validate_tags\<close> reads its argument with \<^verbatim>\<open>data.get('tags')\<close>, which a dictionary
  answers and a list does not (\<^verbatim>\<open>AttributeError\<close>).  A serializer calls a method
  named \<^verbatim>\<open>validate_<field>\<close> with the value of that field, which for \<^verbatim>\<open>tags\<close> is the
  list of tags; both shapes of argument are modelled.  \<^verbatim>\<open>not tags\<close> holds for
  \<^verbatim>\<open>None\<close> and for the empty list.  The method ends without a \<^verbatim>\<open>return\<close>.
\<close>

datatype argument = DataDict recipe_data | TagList "nat list"

definition validate_tags :: "argument \<Rightarrow> exn + unit" where
  "validate_tags arg =
     (case arg of
        TagList value_list \<Rightarrow> Inl AttributeError
      | DataDict data \<Rightarrow>
          (case data_tags data of
             None \<Rightarrow> Inl (ValidationError ''tags'' MinOneTag)
           | Some tags \<Rightarrow>
               if tags = [] then Inl (ValidationError ''tags'' MinOneTag)
               else validate_tags_loop tags []))"

section \<open>Favorites and the cart (\<^verbatim>\<open>RecipeViewSet\<close>)\<close>

datatype model = Favorite | Cart

definition objects :: "model \<Rightarrow> store \<Rightarrow> membership list" where
  "objects m db = (case m of Favorite \<Rightarrow> favorite_rows db | Cart \<Rightarrow> cart_rows db)"

definition set_objects :: "model \<Rightarrow> membership list \<Rightarrow> store \<Rightarrow> store" where
  "set_objects m rows db =
     (case m of Favorite \<Rightarrow> db\<lparr>favorite_rows := rows\<rparr> | Cart \<Rightarrow> db\<lparr>cart_rows := rows\<rparr>)"

text \<open>\<^verbatim>\<open>get_object_or_404(Recipe, id=pk)\<close>.\<close>

definition get_object_or_404 :: "store \<Rightarrow> nat \<Rightarrow> exn + Recipe" where
  "get_object_or_404 db pk =
     (case find (\<lambda>r. recipe_id r = pk) (recipe_rows db) of
        None \<Rightarrow> Inl Http404
      | Some recipe \<Rightarrow> Inr recipe)"

text \<open>
  \<^verbatim>\<open>model.objects.create(user=user, recipe=recipe)\<close>: the insert violates the
  \<^verbatim>\<open>UniqueConstraint\<close> on \<^verbatim>\<open>('user', 'recipe')\<close> of \<^verbatim>\<open>Favorite.Meta\<close> and
  \<^verbatim>\<open>Cart.Meta\<close> when the pair is there already, and the database error surfaces as
  \<^verbatim>\<open>IntegrityError\<close>.
\<close>

definition objects_create :: "model \<Rightarrow> store \<Rightarrow> nat \<Rightarrow> Recipe \<Rightarrow> exn + store" where
  "objects_create m db user recipe =
     (let row = \<lparr>membership_user = user, membership_recipe = recipe_id recipe\<rparr>
      in if row \<in> set (objects m db) then Inl IntegrityError
         else Inr (set_objects m (objects m db @ [row]) db))"

text \<open>
  A model serializer finds each name of \<^verbatim>\<open>Meta.fields\<close> among the fields of its model
  and is \<^verbatim>\<open>ImproperlyConfigured\<close> for a name the model does not have.  The scalar
  fields of \<^verbatim>\<open>Recipe\<close> are \<^verbatim>\<open>id\<close>, \<^verbatim>\<open>author\<close>, \<^verbatim>\<open>name\<close>, \<^verbatim>\<open>image\<close>, \<^verbatim>\<open>text\<close>,
  \<^verbatim>\<open>time\<close> and \<^verbatim>\<open>pub_date\<close>.
\<close>

definition Recipe_field :: "string \<Rightarrow> Recipe \<Rightarrow> pyval option" where
  "Recipe_field field_name r =
     (if field_name = ''id'' then Some (PInt (int (recipe_id r)))
      else if field_name = ''author'' then Some (PInt (int (recipe_author r)))
      else if field_name = ''name'' then Some (PStr (recipe_name r))
      else if field_name = ''image'' then Some (PStr (recipe_image r))
      else if field_name = ''text'' then Some (PStr (recipe_text r))
      else if field_name = ''time'' then Some (PInt (int (recipe_time r)))
      else if field_name = ''pub_date'' then Some (PInt (int (recipe_pub_date r)))
      else None)"

fun serializer_data :: "string list \<Rightarrow> Recipe \<Rightarrow> exn + (string \<times> pyval) list" where
  "serializer_data [] r = Inr []"
| "serializer_data (field_name # field_names) r =
     (case Recipe_field field_name r of
        None \<Rightarrow> Inl ImproperlyConfigured
      | Some v \<Rightarrow>
          (case serializer_data field_names r of
             Inl e \<Rightarrow> Inl e
           | Inr rest \<Rightarrow> Inr ((field_name, v) # rest)))"

text \<open>\<^verbatim>\<open>ShortRecipeSerializer.Meta.fields = ('id', 'name', 'image', 'cooking_time')\<close>.\<close>

definition ShortRecipeSerializer :: "Recipe \<Rightarrow> exn + (string \<times> pyval) list" where
  "ShortRecipeSerializer r = serializer_data [''id'', ''name'', ''image'', ''cooking_time''] r"

text \<open>
  A view returns the store it leaves behind and either the response or the exception
  that left it.  Each statement of \<^verbatim>\<open>add_to\<close> runs in its own transaction, so a row
  created before a later exception stays.
\<close>

definition add_to :: "model \<Rightarrow> store \<Rightarrow> nat \<Rightarrow> nat \<Rightarrow> store \<times> (exn + response)" where
  "add_to m db user pk =
     (case get_object_or_404 db pk of
        Inl e \<Rightarrow> (db, Inl e)
      | Inr recipe \<Rightarrow>
          (case objects_create m db user recipe of
             Inl e \<Rightarrow> (db, Inl e)
           | Inr db' \<Rightarrow>
               (case ShortRecipeSerializer recipe of
                  Inl e \<Rightarrow> (db', Inl e)
                | Inr d \<Rightarrow> (db', Inr (Response 201 (Some d))))))"

definition delete_from :: "model \<Rightarrow> store \<Rightarrow> nat \<Rightarrow> nat \<Rightarrow> store \<times> (exn + response)" where
  "delete_from m db user pk =
     (set_objects m
        (filter (\<lambda>row. \<not> (membership_user row = user \<and> membership_recipe row = pk))
           (objects m db)) db,
      Inr (Response 204 None))"

datatype http_method = POST | DELETE

definition favorite :: "http_method \<Rightarrow> store \<Rightarrow> nat \<Rightarrow> nat \<Rightarrow> store \<times> (exn + response)" where
  "favorite request_method db user pk =
     (if request_method = POST then add_to Favorite db user pk
      else delete_from Favorite db user pk)"

definition cart :: "http_method \<Rightarrow> store \<Rightarrow> nat \<Rightarrow> nat \<Rightarrow> store \<times> (exn + response)" where
  "cart request_method db user pk =
     (if request_method = POST then add_to Cart db user pk
      else delete_from Cart db user pk)"

subsection \<open>Subscriptions (\<^verbatim>\<open>users/views.py\<close>, \<^verbatim>\<open>FollowViewSet.delete\<close>)\<close>

text \<open>
  The view that removes a subscription has the shape of \<^verbatim>\<open>delete_from\<close>, with a
  \<^verbatim>\<open>get_object_or_404\<close> on the author before the rows are filtered.  The users are given
  by their primary keys and a subscription is a pair of user and author.
\<close>

definition FollowViewSet_delete ::
  "nat list \<Rightarrow> (nat \<times> nat) list \<Rightarrow> nat \<Rightarrow> nat \<Rightarrow> (nat \<times> nat) list \<times> (exn + response)" where
  "FollowViewSet_delete users follows user user_id =
     (case find (\<lambda>u. u = user_id) users of
        None \<Rightarrow> (follows, Inl Http404)
      | Some author \<Rightarrow>
          (filter (\<lambda>row. \<not> (fst row = user \<and> snd row = user_id)) follows,
           Inr (Response 204 None)))"

section \<open>Example data\<close>

text \<open>
  A store with two recipes that both use flour (2.50 g and 1.75 g), one of them sugar
  as well, both in the cart of user 7.
\<close>

definition example_store :: store where
  "example_store =
     \<lparr>ingredient_rows =
        [\<lparr>ingredient_id = 1, ingredient_name = ''flour'', ingredient_unit = ''g''\<rparr>,
         \<lparr>ingredient_id = 2, ingredient_name = ''sugar'', ingredient_unit = ''g''\<rparr>],
      recipe_rows =
        [\<lparr>recipe_id = 1, recipe_author = 3, recipe_name = ''bread'', recipe_image = ''bread.png'',
          recipe_text = ''bake'', recipe_time = 60, recipe_pub_date = 1\<rparr>,
         \<lparr>recipe_id = 2, recipe_author = 3, recipe_name = ''cake'', recipe_image = ''cake.png'',
          recipe_text = ''mix'', recipe_time = 45, recipe_pub_date = 2\<rparr>],
      amount_rows =
        [\<lparr>amount_recipe = 1, amount_ingredient = 1, amount_amount = Decimal 250 (- 2)\<rparr>,
         \<lparr>amount_recipe = 2, amount_ingredient = 2, amount_amount = Decimal 100 (- 2)\<rparr>,
         \<lparr>amount_recipe = 2, amount_ingredient = 1, amount_amount = Decimal 175 (- 2)\<rparr>],
      favorite_rows = [],
      cart_rows =
        [\<lparr>membership_user = 7, membership_recipe = 1\<rparr>,
         \<lparr>membership_user = 7, membership_recipe = 2\<rparr>]\<rparr>"

text \<open>Rows in which salt is met with two units.\<close>

definition example_items :: "item list" where
  "example_items =
     [(''salt'', ''g'', Decimal 100 (- 2)),
      (''sugar'', ''g'', Decimal 200 (- 2)),
      (''salt'', ''kg'', Decimal 300 (- 2))]"

text \<open>The same store before anything was added to a cart.\<close>

definition example_store_empty_cart :: store where
  "example_store_empty_cart = example_store\<lparr>cart_rows := []\<rparr>"

text \<open>
  The dictionary of a recipe with two ingredient lines and two tags, and a cooking time
  under the key that \<^verbatim>\<open>validate\<close> reads.
\<close>

definition example_data :: recipe_data where
  "example_data =
     \<lparr>data_name = Some ''bread'', data_text = Some ''bake'',
      data_ingredients = Some [\<lparr>line_id = 1, line_amount = 2\<rparr>, \<lparr>line_id = 2, line_amount = 1\<rparr>],
      data_tags = Some [1, 2], data_time = Some 60, data_cooking_time = Some 60\<rparr>"

text \<open>
  The dictionary that reaches \<^verbatim>\<open>validate\<close> for a partial update that sends two
  ingredient lines and a cooking time of 60 and no tags: the keys are those of
  \<^verbatim>\<open>RecipeSerializer.Meta.fields\<close>, where the cooking time is \<^verbatim>\<open>time\<close>.
\<close>

definition example_validated_data :: recipe_data where
  "example_validated_data =
     \<lparr>data_name = None, data_text = None,
      data_ingredients = Some [\<lparr>line_id = 1, line_amount = 2\<rparr>, \<lparr>line_id = 2, line_amount = 1\<rparr>],
      data_tags = None, data_time = Some 60, data_cooking_time = None\<rparr>"

text \<open>An aggregated list of two entries, and one of thirty-two.\<close>

definition example_final :: final_list where
  "example_final =
     [(''salt'', \<lparr>unit = ''g'', amount = Decimal 400 (- 2)\<rparr>),
      (''sugar'', \<lparr>unit = ''g'', amount = Decimal 200 (- 2)\<rparr>)]"

definition example_long_list :: final_list where
  "example_long_list =
     map (\<lambda>k. (''item'' @ str_nat k, \<lparr>unit = ''g'', amount = Decimal 150 (- 2)\<rparr>)) [1..<33]"

section \<open>Properties of the aggregation\<close>

lemma first_seen_set [simp]: "set (first_seen xs) = set xs"
  by (induction xs) auto

lemma first_seen_distinct [simp]: "distinct (first_seen xs)"
  by (induction xs) auto

lemma first_seen_snoc:
  "first_seen (xs @ [x]) = (if x \<in> set xs then first_seen xs else first_seen xs @ [x])"
  by (induction xs) auto

lemma aggregate_snoc: "aggregate (items @ [item]) = add_item (aggregate items) item"
  by (simp add: aggregate_def)

lemma grouped_keys: "map fst (grouped items) = first_seen (map fst items)"
  by (simp add: grouped_def comp_def)

lemma group_entry_snoc:
  "rows \<noteq> [] \<Longrightarrow>
   group_entry (rows @ [item]) = (group_entry rows)\<lparr>amount := dec_add (amount (group_entry rows)) (snd (snd item))\<rparr>"
  by (cases rows) (simp_all add: group_entry_def)

lemma rows_of_nonempty: "name \<in> fst ` set items \<Longrightarrow> rows_of name items \<noteq> []"
  by (auto simp: rows_of_def filter_empty_conv)

lemma grouped_snoc: "grouped (items @ [item]) = add_item (grouped items) item"
proof (cases "fst item \<in> fst ` set items")
  case False
  have notin: "fst item \<notin> set (map fst items)"
    using False by simp
  have none: "filter (\<lambda>i. fst i = fst item) items = []"
    unfolding filter_empty_conv using False by (metis imageI)
  have new: "rows_of (fst item) (items @ [item]) = [item]"
    by (simp add: rows_of_def none)
  have "\<And>name. name \<in> set (first_seen (map fst items)) \<Longrightarrow>
          rows_of name (items @ [item]) = rows_of name items"
    using notin by (auto simp: rows_of_def)
  then have old: "map (\<lambda>name. (name, group_entry (rows_of name (items @ [item])))) (first_seen (map fst items))
      = map (\<lambda>name. (name, group_entry (rows_of name items))) (first_seen (map fst items))"
    by simp
  have keys: "fst ` set (grouped items) = fst ` set items"
    using grouped_keys [of items] by (metis first_seen_set set_map)
  have "grouped (items @ [item]) = grouped items @ [(fst item, group_entry [item])]"
    using notin by (simp add: grouped_def first_seen_snoc new old)
  then show ?thesis
    using False keys by (simp add: add_item_def group_entry_def)
next
  case True
  have keys: "fst ` set (grouped items) = fst ` set items"
    using grouped_keys [of items] by (metis first_seen_set set_map)
  have "map (\<lambda>name. (name, group_entry (rows_of name (items @ [item])))) (first_seen (map fst items))
      = map (\<lambda>(k, data). if k = fst item
               then (k, data\<lparr>amount := dec_add (amount data) (snd (snd item))\<rparr>)
               else (k, data))
          (map (\<lambda>name. (name, group_entry (rows_of name items))) (first_seen (map fst items)))"
  proof (simp, intro ballI impI conjI)
    fix n assume "n \<in> set items" "fst n = fst item"
    have "rows_of (fst item) items \<noteq> []"
      by (rule rows_of_nonempty [OF True])
    then show "group_entry (rows_of (fst item) (items @ [item]))
        = (group_entry (rows_of (fst item) items))\<lparr>amount :=
             dec_add (amount (group_entry (rows_of (fst item) items))) (snd (snd item))\<rparr>"
      using group_entry_snoc [of "rows_of (fst item) items" item] by (simp add: rows_of_def)
  next
    fix n assume "n \<in> set items" "fst n \<noteq> fst item"
    then show "group_entry (rows_of (fst n) (items @ [item])) = group_entry (rows_of (fst n) items)"
      by (simp add: rows_of_def)
  qed
  then show ?thesis
    using True keys by (simp add: grouped_def add_item_def first_seen_snoc)
qed

lemma aggregate_grouped: "aggregate items = grouped items"
proof (induction items rule: rev_induct)
  case Nil
  show ?case by (simp add: aggregate_def grouped_def)
next
  case (snoc item items)
  then show ?case by (simp add: aggregate_snoc grouped_snoc)
qed

lemma map_of_tabulate:
  "map_of (map (\<lambda>k. (k, f k)) ks) n = (if n \<in> set ks then Some (f n) else None)"
  by (induction ks) auto

lemma filter_eq_distinct:
  "distinct xs \<Longrightarrow> x \<in> set xs \<Longrightarrow> filter (\<lambda>k. k = x) xs = [x]"
  by (induction xs) (auto simp: filter_empty_conv)

lemma rows_of_first:
  "n \<notin> fst ` set xs \<Longrightarrow> rows_of n (xs @ (n, u, a) # ys) = (n, u, a) # rows_of n ys"
proof -
  assume "n \<notin> fst ` set xs"
  then have "filter (\<lambda>i. fst i = n) xs = []"
    unfolding filter_empty_conv by (metis imageI)
  then show ?thesis by (simp add: rows_of_def)
qed

lemma map_of_grouped:
  "map_of (grouped items) n =
     (if n \<in> fst ` set items then Some (group_entry (rows_of n items)) else None)"
  by (simp add: grouped_def map_of_tabulate)

lemma filter_grouped:
  "n \<in> fst ` set items \<Longrightarrow>
   filter (\<lambda>kv. fst kv = n) (grouped items) = [(n, group_entry (rows_of n items))]"
proof -
  assume "n \<in> fst ` set items"
  then have "filter (\<lambda>k. k = n) (first_seen (map fst items)) = [n]"
    by (intro filter_eq_distinct) simp_all
  then show ?thesis
    by (simp add: grouped_def filter_map comp_def)
qed

subsection \<open>Sums within the precision are exact\<close>

lemma ndigits_le: "n < 10 ^ k \<Longrightarrow> 0 < k \<Longrightarrow> ndigits n \<le> k"
proof (induction n arbitrary: k rule: ndigits.induct)
  case (1 n)
  show ?case
  proof (cases "n < 10")
    case True
    with "1.prems" show ?thesis by (simp add: ndigits.simps)
  next
    case False
    from "1.prems" obtain j where k: "k = Suc j" by (cases k) auto
    with "1.prems" False have "0 < j" by (cases j) auto
    moreover from "1.prems" k have "n div 10 < 10 ^ j" by (simp add: less_mult_imp_div_less)
    ultimately have "ndigits (n div 10) \<le> j" using "1.IH" False by simp
    with False k show ?thesis by (subst ndigits.simps) simp
  qed
qed

lemma fix_decimal_exact: "\<bar>c\<bar> < 10 ^ 28 \<Longrightarrow> fix_decimal (Decimal c e) = Decimal c e"
proof -
  assume "\<bar>c\<bar> < 10 ^ 28"
  then have "nat \<bar>c\<bar> < 10 ^ 28" by (simp add: nat_less_iff)
  then have "ndigits (nat \<bar>c\<bar>) \<le> 28" by (intro ndigits_le) simp_all
  then show ?thesis by (simp add: fix_decimal_def prec_def)
qed

lemma dec_add_exact:
  "\<bar>a + b\<bar> < 10 ^ 28 \<Longrightarrow> dec_add (Decimal a e) (Decimal b e) = Decimal (a + b) e"
  by (simp add: dec_add_def fix_decimal_exact)

lemma foldl_dec_add_exact:
  "\<bar>c\<bar> + sum_list (map abs cs) < 10 ^ 28 \<Longrightarrow>
   foldl dec_add (Decimal c e) (map (\<lambda>x. Decimal x e) cs) = Decimal (c + sum_list cs) e"
proof (induction cs arbitrary: c)
  case Nil
  show ?case by simp
next
  case (Cons x cs)
  have "\<bar>c + x\<bar> \<le> \<bar>c\<bar> + \<bar>x\<bar>" by simp
  moreover have "0 \<le> sum_list (map abs cs)" by (induction cs) auto
  ultimately have small: "\<bar>c + x\<bar> < 10 ^ 28" and rest: "\<bar>c + x\<bar> + sum_list (map abs cs) < 10 ^ 28"
    using Cons.prems by simp_all
  show ?case
    using Cons.IH [OF rest] by (simp add: dec_add_exact [OF small] add.assoc)
qed

text \<open>
  The amount of a group is the exact sum of its amounts: for rows with two decimal
  places whose absolute values add up to less than \<open>10 ^ 28\<close> hundredths, nothing is
  rounded.
\<close>

lemma aggregate_amount_exact:
  assumes "map (\<lambda>i. snd (snd i)) (rows_of name items) = map (\<lambda>x. Decimal x (- 2)) cs"
    and "cs \<noteq> []" and "sum_list (map abs cs) < 10 ^ 28"
  shows "\<exists>u. map_of (aggregate items) name = Some \<lparr>unit = u, amount = Decimal (sum_list cs) (- 2)\<rparr>"
proof -
  from assms(2) obtain c rest where cs: "cs = c # rest" by (cases cs) auto
  with assms(1) obtain r rows where rows: "rows_of name items = r # rows"
    and r: "snd (snd r) = Decimal c (- 2)"
    and rest: "map (\<lambda>i. snd (snd i)) rows = map (\<lambda>x. Decimal x (- 2)) rest"
    by (auto simp: map_eq_Cons_conv)
  have "r \<in> set (rows_of name items)" by (simp add: rows)
  then have "name \<in> fst ` set items" unfolding rows_of_def by force
  then have "map_of (aggregate items) name = Some (group_entry (rows_of name items))"
    by (simp add: aggregate_grouped map_of_grouped)
  moreover have "foldl dec_add (Decimal c (- 2)) (map (\<lambda>x. Decimal x (- 2)) rest)
      = Decimal (c + sum_list rest) (- 2)"
    using assms(3) by (intro foldl_dec_add_exact) (simp add: cs)
  ultimately show ?thesis
    by (simp add: rows group_entry_def r rest cs)
qed

lemma dec_add_small:
  "dec_add (Decimal 250 (- 2)) (Decimal 175 (- 2)) = Decimal 425 (- 2)"
  "dec_add (Decimal 175 (- 2)) (Decimal 250 (- 2)) = Decimal 425 (- 2)"
  "dec_add (Decimal 100 (- 2)) (Decimal 300 (- 2)) = Decimal 400 (- 2)"
  by (simp_all add: dec_add_def fix_decimal_def ndigits.simps prec_def)

lemma example_cart_items:
  "cart_items example_store 7 =
     [(''flour'', ''g'', Decimal 250 (- 2)),
      (''sugar'', ''g'', Decimal 100 (- 2)),
      (''flour'', ''g'', Decimal 175 (- 2))]"
  by (simp add: cart_items_def example_store_def)

subsection \<open>Grouping by name\<close>

text \<open>
  Claim C5.  The aggregation groups the rows by ingredient name only.  The keys of the
  result are the names in the order in which each was first met, no key occurs twice,
  and the entry of a name holds the unit of the first row with that name, whatever the
  units of the later rows, together with the amounts of all rows of that name added up in
  their order.
\<close>

theorem aggregate_groups_by_name:
  "map fst (aggregate items) = first_seen (map fst items)
   \<and> distinct (map fst (aggregate items))
   \<and> (\<forall>xs n u a ys. items = xs @ (n, u, a) # ys \<and> n \<notin> fst ` set xs \<longrightarrow>
        map_of (aggregate items) n =
          Some \<lparr>unit = u, amount = foldl dec_add a (map (\<lambda>i. snd (snd i)) (rows_of n ys))\<rparr>)"
proof (intro conjI allI impI)
  show keys: "map fst (aggregate items) = first_seen (map fst items)"
    by (simp add: aggregate_grouped grouped_keys)
  show "distinct (map fst (aggregate items))"
    by (simp add: keys)
next
  fix xs n u a ys
  assume split: "items = xs @ (n, u, a) # ys \<and> n \<notin> fst ` set xs"
  then have rows: "rows_of n items = (n, u, a) # rows_of n ys"
    by (simp add: rows_of_first)
  have "n \<in> fst ` set items"
    using split by force
  then have "map_of (aggregate items) n = Some (group_entry (rows_of n items))"
    by (simp add: aggregate_grouped map_of_grouped)
  then show "map_of (aggregate items) n =
      Some \<lparr>unit = u, amount = foldl dec_add a (map (\<lambda>i. snd (snd i)) (rows_of n ys))\<rparr>"
    by (simp add: rows group_entry_def)
qed

theorem aggregate_groups_by_name_witness:
  "map fst (aggregate example_items) = [''salt'', ''sugar'']
   \<and> map_of (aggregate example_items) ''salt''
       = Some \<lparr>unit = ''g'', amount = Decimal 400 (- 2)\<rparr>"
proof -
  have split: "example_items
      = [] @ (''salt'', ''g'', Decimal 100 (- 2))
           # [(''sugar'', ''g'', Decimal 200 (- 2)), (''salt'', ''kg'', Decimal 300 (- 2))]
      \<and> ''salt'' \<notin> fst ` set ([] :: item list)"
    by (simp add: example_items_def)
  note inst = aggregate_groups_by_name [of example_items]
  from inst have "map fst (aggregate example_items) = first_seen (map fst example_items)"
    by blast
  then have keys: "map fst (aggregate example_items) = [''salt'', ''sugar'']"
    by (simp add: example_items_def)
  from inst split have "map_of (aggregate example_items) ''salt''
      = Some \<lparr>unit = ''g'', amount = foldl dec_add (Decimal 100 (- 2))
          (map (\<lambda>i. snd (snd i)) (rows_of ''salt''
             [(''sugar'', ''g'', Decimal 200 (- 2)), (''salt'', ''kg'', Decimal 300 (- 2))]))\<rparr>"
    by blast
  then have "map_of (aggregate example_items) ''salt''
      = Some \<lparr>unit = ''g'', amount = Decimal 400 (- 2)\<rparr>"
    by (simp add: rows_of_def dec_add_small)
  with keys show ?thesis by simp
qed

subsection \<open>The flour example\<close>

text \<open>
  Claim C1.  Whenever the rows of a user's cart hold flour twice, with the amounts 2.50
  and 1.75 in either order, the aggregation has exactly one entry for flour and its
  amount is the Decimal 4.25 exactly.
\<close>

theorem download_cart_flour_total:
  assumes "map (\<lambda>i. snd (snd i)) (rows_of ''flour'' (cart_items db user))
             = [Decimal 250 (- 2), Decimal 175 (- 2)]
         \<or> map (\<lambda>i. snd (snd i)) (rows_of ''flour'' (cart_items db user))
             = [Decimal 175 (- 2), Decimal 250 (- 2)]"
  shows "\<exists>u. filter (\<lambda>kv. fst kv = ''flour'') (aggregate (cart_items db user))
           = [(''flour'', \<lparr>unit = u, amount = Decimal 425 (- 2)\<rparr>)]"
proof -
  define rows where "rows = rows_of ''flour'' (cart_items db user)"
  from assms obtain r1 r2 where rows: "rows = [r1, r2]"
    and sum: "dec_add (snd (snd r1)) (snd (snd r2)) = Decimal 425 (- 2)"
    unfolding rows_def [symmetric] by (auto simp: dec_add_small map_eq_Cons_conv)
  have "r1 \<in> set rows" by (simp add: rows)
  then have "''flour'' \<in> fst ` set (cart_items db user)"
    unfolding rows_def rows_of_def by force
  then have "filter (\<lambda>kv. fst kv = ''flour'') (aggregate (cart_items db user))
      = [(''flour'', group_entry rows)]"
    by (simp add: aggregate_grouped filter_grouped rows_def)
  moreover have "group_entry rows = \<lparr>unit = fst (snd r1), amount = Decimal 425 (- 2)\<rparr>"
    by (simp add: rows group_entry_def sum)
  ultimately show ?thesis by simp
qed

theorem download_cart_flour_total_witness:
  "map (\<lambda>i. snd (snd i)) (rows_of ''flour'' (cart_items example_store 7))
     = [Decimal 250 (- 2), Decimal 175 (- 2)]
   \<and> (\<exists>u. filter (\<lambda>kv. fst kv = ''flour'') (aggregate (cart_items example_store 7))
           = [(''flour'', \<lparr>unit = u, amount = Decimal 425 (- 2)\<rparr>)])"
proof -
  have rows: "map (\<lambda>i. snd (snd i)) (rows_of ''flour'' (cart_items example_store 7))
      = [Decimal 250 (- 2), Decimal 175 (- 2)]"
    by (simp add: example_cart_items rows_of_def)
  from download_cart_flour_total [of example_store 7, OF disjI1 [OF rows]] rows
  show ?thesis by (rule conjI [rotated])
qed

section \<open>Properties of the membership views\<close>

lemma membership_row_eq:
  "(row :: membership) = \<lparr>membership_user = u, membership_recipe = p\<rparr>
    \<longleftrightarrow> membership_user row = u \<and> membership_recipe row = p"
  by (cases row) simp

lemma objects_set_objects:
  "objects m (set_objects m' rows db) = (if m = m' then rows else objects m db)"
  by (cases m; cases m') (simp_all add: objects_def set_objects_def)

lemma set_objects_same: "set_objects m (objects m db) db = db"
  by (cases m) (simp_all add: objects_def set_objects_def)

lemma set_objects_frame:
  "ingredient_rows (set_objects m rows db) = ingredient_rows db"
  "recipe_rows (set_objects m rows db) = recipe_rows db"
  "amount_rows (set_objects m rows db) = amount_rows db"
  by (cases m; simp add: set_objects_def)+

text \<open>
  Claim C7.  Removing a pair of user and recipe always answers with the empty response
  of status 204 and never raises.  The rows of the pair are deleted from the table of
  the model and nothing else changes; when the pair is absent the store is left exactly
  as it was.
\<close>

theorem delete_from_is_idempotent_delete:
  "snd (delete_from m db user pk) = Inr (Response 204 None)
   \<and> objects m (fst (delete_from m db user pk))
       = filter (\<lambda>row. row \<noteq> \<lparr>membership_user = user, membership_recipe = pk\<rparr>) (objects m db)
   \<and> \<lparr>membership_user = user, membership_recipe = pk\<rparr>
       \<notin> set (objects m (fst (delete_from m db user pk)))
   \<and> (\<forall>m'. m' \<noteq> m \<longrightarrow> objects m' (fst (delete_from m db user pk)) = objects m' db)
   \<and> recipe_rows (fst (delete_from m db user pk)) = recipe_rows db
   \<and> ingredient_rows (fst (delete_from m db user pk)) = ingredient_rows db
   \<and> amount_rows (fst (delete_from m db user pk)) = amount_rows db
   \<and> (\<lparr>membership_user = user, membership_recipe = pk\<rparr> \<notin> set (objects m db)
        \<longrightarrow> fst (delete_from m db user pk) = db)"
proof -
  have same: "(\<lambda>row. \<not> (membership_user row = user \<and> membership_recipe row = pk))
      = (\<lambda>row. row \<noteq> \<lparr>membership_user = user, membership_recipe = pk\<rparr>)"
    by (simp add: membership_row_eq)
  have absent: "filter (\<lambda>row. row \<noteq> \<lparr>membership_user = user, membership_recipe = pk\<rparr>) (objects m db)
      = objects m db"
    if "\<lparr>membership_user = user, membership_recipe = pk\<rparr> \<notin> set (objects m db)"
    using that by (simp add: filter_id_conv) metis
  show ?thesis
    unfolding delete_from_def same
    by (simp add: objects_set_objects set_objects_frame absent set_objects_same)
qed

theorem delete_from_is_idempotent_delete_witness:
  "\<lparr>membership_user = 8, membership_recipe = 1\<rparr> \<notin> set (objects Cart example_store)
   \<and> delete_from Cart example_store 8 1 = (example_store, Inr (Response 204 None))
   \<and> Favorite \<noteq> Cart
   \<and> objects Favorite (fst (delete_from Cart example_store 8 1)) = objects Favorite example_store
   \<and> objects Cart (fst (delete_from Cart example_store 7 1))
       = [\<lparr>membership_user = 7, membership_recipe = 2\<rparr>]"
proof -
  have absent: "\<lparr>membership_user = 8, membership_recipe = 1\<rparr> \<notin> set (objects Cart example_store)"
    by (simp add: objects_def example_store_def)
  note inst = delete_from_is_idempotent_delete [of Cart example_store 8 1]
  from inst absent have "fst (delete_from Cart example_store 8 1) = example_store"
    by blast
  moreover from inst have "snd (delete_from Cart example_store 8 1) = Inr (Response 204 None)"
    by blast
  moreover from inst
  have "objects Favorite (fst (delete_from Cart example_store 8 1)) = objects Favorite example_store"
    by blast
  moreover from delete_from_is_idempotent_delete [of Cart example_store 7 1]
  have "objects Cart (fst (delete_from Cart example_store 7 1))
      = filter (\<lambda>row. row \<noteq> \<lparr>membership_user = 7, membership_recipe = 1\<rparr>)
          (objects Cart example_store)"
    by blast
  then have "objects Cart (fst (delete_from Cart example_store 7 1))
      = [\<lparr>membership_user = 7, membership_recipe = 2\<rparr>]"
    by (simp add: objects_def example_store_def)
  ultimately show ?thesis
    using absent by (simp add: prod_eq_iff)
qed

text \<open>What \<^verbatim>\<open>add_to\<close> does when the recipe is missing and when the pair is present.\<close>

lemma add_to_missing_recipe:
  "find (\<lambda>r. recipe_id r = pk) (recipe_rows db) = None \<Longrightarrow> add_to m db user pk = (db, Inl Http404)"
  by (simp add: add_to_def get_object_or_404_def)

lemma add_to_present_pair:
  "find (\<lambda>r. recipe_id r = pk) (recipe_rows db) = Some recipe \<Longrightarrow>
   \<lparr>membership_user = user, membership_recipe = pk\<rparr> \<in> set (objects m db) \<Longrightarrow>
   add_to m db user pk = (db, Inl IntegrityError)"
proof -
  assume found: "find (\<lambda>r. recipe_id r = pk) (recipe_rows db) = Some recipe"
    and present: "\<lparr>membership_user = user, membership_recipe = pk\<rparr> \<in> set (objects m db)"
  from found have "recipe_id recipe = pk"
    by (auto simp: find_Some_iff)
  with found present show ?thesis
    by (simp add: add_to_def get_object_or_404_def objects_create_def)
qed

text \<open>
  \<^verbatim>\<open>Recipe\<close> has a field \<^verbatim>\<open>time\<close> and none called \<^verbatim>\<open>cooking_time\<close>, so the summary
  serializer never produces data.
\<close>

lemma ShortRecipeSerializer_fails: "ShortRecipeSerializer r = Inl ImproperlyConfigured"
  by (simp add: ShortRecipeSerializer_def Recipe_field_def)

text \<open>
  Claim C2, evaluated.  User 7 adds recipe 1, which exists, to an empty cart: the row is
  created, and the call leaves with \<^verbatim>\<open>ImproperlyConfigured\<close> instead of the response
  of status 201.  Adding the pair again, to the store the first call left or to any store
  that holds the pair, leaves with the \<^verbatim>\<open>IntegrityError\<close> of the store, which nothing
  in \<^verbatim>\<open>add_to\<close> catches or turns into a conflict; the store stays as it was.
\<close>

theorem add_to_cart_twice:
  "cart_rows (fst (cart POST example_store_empty_cart 7 1))
     = [\<lparr>membership_user = 7, membership_recipe = 1\<rparr>]
   \<and> snd (cart POST example_store_empty_cart 7 1) = Inl ImproperlyConfigured
   \<and> cart POST (fst (cart POST example_store_empty_cart 7 1)) 7 1
       = (fst (cart POST example_store_empty_cart 7 1), Inl IntegrityError)
   \<and> cart POST example_store 7 1 = (example_store, Inl IntegrityError)"
  by (simp add: cart_def add_to_def get_object_or_404_def objects_create_def objects_def
      set_objects_def ShortRecipeSerializer_fails example_store_empty_cart_def example_store_def)

text \<open>
  Claim C9, evaluated.  No recipe of the example store has the key 99.  Adding it to the
  cart or to the favorites ends in \<^verbatim>\<open>Http404\<close>, and so does removing a subscription to
  a missing author; removing recipe 99 from the cart or from the favorites answers 204
  and leaves the store as it is.
\<close>

theorem delete_from_missing_recipe:
  "get_object_or_404 example_store 99 = Inl Http404
   \<and> cart DELETE example_store 7 99 = (example_store, Inr (Response 204 None))
   \<and> favorite DELETE example_store 7 99 = (example_store, Inr (Response 204 None))
   \<and> cart POST example_store 7 99 = (example_store, Inl Http404)
   \<and> favorite POST example_store 7 99 = (example_store, Inl Http404)
   \<and> FollowViewSet_delete [3, 7] [(7, 3)] 7 99 = ([(7, 3)], Inl Http404)"
  by (simp add: cart_def favorite_def delete_from_def add_to_def get_object_or_404_def
      objects_def set_objects_def FollowViewSet_delete_def example_store_def)

section \<open>Properties of the recipe validation\<close>

text \<open>For an integer, being below the float 0.01 is being below 1.\<close>

lemma amount_below_min: "((of_int a :: rat) < 1 / 100) \<longleftrightarrow> a < 1"
proof
  assume "(of_int a :: rat) < 1 / 100"
  then have "(of_int a :: rat) < 1" by simp
  then show "a < 1" by simp
next
  assume "a < 1"
  then have "a \<le> 0" by simp
  then have "(of_int a :: rat) \<le> 0" by simp
  then show "(of_int a :: rat) < 1 / 100" by simp
qed

lemma validate_tags_loop_eq:
  "validate_tags_loop tags tags_list =
     (if distinct tags \<and> set tags \<inter> set tags_list = {} then Inr ()
      else Inl (ValidationError ''tags'' TagsRepeat))"
  by (induction tags arbitrary: tags_list) auto

lemma validate_ingredients_ok:
  "validate_ingredients lines ingredients_list = Inr () \<longleftrightarrow>
     distinct (map line_id lines) \<and> set (map line_id lines) \<inter> set ingredients_list = {}
     \<and> list_all (\<lambda>l. 1 \<le> line_amount l) lines"
  by (induction lines arbitrary: ingredients_list) (auto simp: amount_below_min)

lemma validate_ingredients_error:
  "validate_ingredients lines ingredients_list = Inl e \<Longrightarrow>
     e = ValidationError ''ingredients'' IngredientsRepeat \<or> e = ValidationError ''amount'' MinAmount"
  by (induction lines arbitrary: ingredients_list) (auto split: if_splits)

lemma validate_ingredients_repeat:
  "list_all (\<lambda>l. 1 \<le> line_amount l) lines \<Longrightarrow>
   validate_ingredients lines ingredients_list =
     (if distinct (map line_id lines) \<and> set (map line_id lines) \<inter> set ingredients_list = {}
      then Inr () else Inl (ValidationError ''ingredients'' IngredientsRepeat))"
  by (induction lines arbitrary: ingredients_list) (auto simp: amount_below_min)

text \<open>
  What \<^verbatim>\<open>validate\<close> and \<^verbatim>\<open>validate_tags\<close> do with empty and repeated entries when they
  are given the dictionary.
\<close>

lemma validate_empty_ingredients:
  "data_ingredients data = Some [] \<Longrightarrow>
   validate data = Inl (ValidationError ''ingredients'' MinOneIngredient)"
  by (simp add: validate_def)

lemma validate_repeated_ingredients:
  assumes "data_ingredients data = Some lines" and "\<not> distinct (map line_id lines)"
  shows "validate data = Inl (ValidationError ''ingredients'' IngredientsRepeat)
         \<or> validate data = Inl (ValidationError ''amount'' MinAmount)"
proof -
  from assms have ne: "lines \<noteq> []" by auto
  from assms have "validate_ingredients lines [] \<noteq> Inr ()"
    by (simp add: validate_ingredients_ok)
  then obtain e where e: "validate_ingredients lines [] = Inl e"
    by (cases "validate_ingredients lines []") auto
  with validate_ingredients_error [OF e] assms ne show ?thesis
    by (auto simp: validate_def)
qed

lemma validate_low_amount:
  assumes "data_ingredients data = Some lines" and "l \<in> set lines" and "line_amount l < 1"
  shows "validate data = Inl (ValidationError ''ingredients'' IngredientsRepeat)
         \<or> validate data = Inl (ValidationError ''amount'' MinAmount)"
proof -
  from assms have ne: "lines \<noteq> []" by auto
  from assms(2,3) have "\<exists>x\<in>set lines. \<not> 1 \<le> line_amount x"
    by (intro bexI [of _ l]) simp_all
  then have "\<not> list_all (\<lambda>l. 1 \<le> line_amount l) lines"
    by (simp add: list_all_iff)
  then have "validate_ingredients lines [] \<noteq> Inr ()"
    by (simp add: validate_ingredients_ok)
  then obtain e where e: "validate_ingredients lines [] = Inl e"
    by (cases "validate_ingredients lines []") auto
  with validate_ingredients_error [OF e] assms ne show ?thesis
    by (auto simp: validate_def)
qed

lemma validate_tags_dict:
  "validate_tags (DataDict data) =
     (case data_tags data of
        None \<Rightarrow> Inl (ValidationError ''tags'' MinOneTag)
      | Some tags \<Rightarrow>
          if tags = [] then Inl (ValidationError ''tags'' MinOneTag)
          else if distinct tags then Inr ()
          else Inl (ValidationError ''tags'' TagsRepeat))"
  by (simp add: validate_tags_def validate_tags_loop_eq split: option.splits)

lemma validate_accepts:
  assumes "data_ingredients data = Some lines" and "lines \<noteq> []"
    and "distinct (map line_id lines)" and "list_all (\<lambda>l. 1 \<le> line_amount l) lines"
    and "data_cooking_time data = Some t" and "1 \<le> t"
  shows "validate data = Inr data"
  using assms by (simp add: validate_def validate_ingredients_repeat)

text \<open>
  Claim C6, evaluated.  A request with an empty list of tags, or with the same tag
  twice, brings \<^verbatim>\<open>validate_tags\<close> the list of its tags, and the method leaves with
  \<^verbatim>\<open>AttributeError\<close> instead of a validation error under the key \<^verbatim>\<open>tags\<close>.  (For the
  ingredients, \<^verbatim>\<open>validate\<close> does answer with the validation errors, as the lemmas above
  say.)
\<close>

theorem validate_tags_on_tag_list:
  "validate_tags (TagList []) = Inl AttributeError
   \<and> validate_tags (TagList [1, 1]) = Inl AttributeError
   \<and> validate_tags (DataDict (example_data\<lparr>data_tags := Some []\<rparr>))
       = Inl (ValidationError ''tags'' MinOneTag)
   \<and> validate (example_data\<lparr>data_ingredients := Some []\<rparr>)
       = Inl (ValidationError ''ingredients'' MinOneIngredient)"
  by (simp add: validate_tags_def validate_def example_data_def)

text \<open>
  Claim C3, evaluated.  The amount of an ingredient line is read by an integer field,
  which refuses \<^verbatim>\<open>0.01\<close> as it refuses \<^verbatim>\<open>0.009\<close>: the amount never reaches the
  comparison with \<^verbatim>\<open>0.01\<close> in \<^verbatim>\<open>validate\<close>.  The smallest amount that passes both is 1.
\<close>

theorem amount_one_hundredth_refused:
  "AddIngredientSerializer_amount (Decimal 1 (- 2))
     = Inl (ValidationError ''amount'' ValidIntegerRequired)
   \<and> AddIngredientSerializer_amount (Decimal 9 (- 3))
     = Inl (ValidationError ''amount'' ValidIntegerRequired)
   \<and> AddIngredientSerializer_amount (Decimal 0 0) = Inr 0
   \<and> validate (example_data\<lparr>data_ingredients := Some [\<lparr>line_id = 1, line_amount = 0\<rparr>]\<rparr>)
     = Inl (ValidationError ''amount'' MinAmount)
   \<and> AddIngredientSerializer_amount (Decimal 1 0) = Inr 1
   \<and> validate (example_data\<lparr>data_ingredients := Some [\<lparr>line_id = 1, line_amount = 1\<rparr>]\<rparr>)
     = Inr (example_data\<lparr>data_ingredients := Some [\<lparr>line_id = 1, line_amount = 1\<rparr>]\<rparr>)"
  by (simp add: AddIngredientSerializer_amount_def IntegerField_def validate_def example_data_def)

text \<open>The integer field accepts a numeral only if it denotes the integer it returns.\<close>

lemma IntegerField_value:
  assumes "IntegerField field_name v = Inr n"
  shows "dec_value v = of_int n"
proof -
  from assms have e: "dexp v \<le> 0" and m: "dcoef v mod 10 ^ nat (- dexp v) = 0"
    and n: "n = dcoef v div 10 ^ nat (- dexp v)"
    by (auto simp: IntegerField_def split: if_splits)
  from m have "dcoef v = n * 10 ^ nat (- dexp v)"
    unfolding n by (simp add: mod_eq_0_iff_dvd)
  then have c: "(of_int (dcoef v) :: rat) = of_int n * 10 ^ nat (- dexp v)"
    by (metis of_int_mult of_int_numeral of_int_power)
  show ?thesis
  proof (cases "dexp v = 0")
    case True
    with c show ?thesis by (simp add: dec_value_def)
  next
    case False
    with e c show ?thesis by (simp add: dec_value_def)
  qed
qed

text \<open>
  Without the key \<^verbatim>\<open>cooking_time\<close> the check at the end of \<^verbatim>\<open>validate\<close> is never
  passed and never answers with its own error: the method leaves with an error of the
  ingredient checks or with \<^verbatim>\<open>TypeError\<close>.
\<close>

lemma validate_missing_cooking_time:
  assumes "data_cooking_time data = None"
  shows "validate data \<noteq> Inr d"
    and "validate data \<noteq> Inl (ValidationError ''cooking_time'' MinCookingTime)"
proof -
  have "validate data = Inl TypeError
      \<or> validate data = Inl (ValidationError ''ingredients'' MinOneIngredient)
      \<or> validate data = Inl (ValidationError ''ingredients'' IngredientsRepeat)
      \<or> validate data = Inl (ValidationError ''amount'' MinAmount)"
  proof (cases "data_ingredients data")
    case None
    then show ?thesis by (simp add: validate_def)
  next
    case (Some lines)
    show ?thesis
    proof (cases "validate_ingredients lines []")
      case (Inl e)
      with validate_ingredients_error [OF Inl] Some show ?thesis
        by (auto simp: validate_def)
    next
      case (Inr u)
      with Some assms show ?thesis
        by (simp add: validate_def)
    qed
  qed
  then show "validate data \<noteq> Inr d"
    and "validate data \<noteq> Inl (ValidationError ''cooking_time'' MinCookingTime)"
    by auto
qed

text \<open>
  Claim C8, evaluated.  The serializer keeps the cooking time under the key \<^verbatim>\<open>time\<close>,
  and \<^verbatim>\<open>validate\<close> reads the key \<^verbatim>\<open>cooking_time\<close>.  For the dictionary of a partial
  update with valid ingredient lines and a cooking time of 60, the value does not pass
  the check: the call leaves with \<^verbatim>\<open>TypeError\<close>.
\<close>

theorem validate_reads_missing_cooking_time:
  "data_time example_validated_data = Some 60
   \<and> data_cooking_time example_validated_data = None
   \<and> validate example_validated_data = Inl TypeError"
  by (simp add: validate_def example_validated_data_def)

section \<open>Properties of the rendering\<close>

lemma draw_lines_eq:
  "draw_lines i height final =
     map (\<lambda>k. DrawString 75 (height - 25 * int k)
                 (line_text (i + k) (fst (final ! k)) (snd (final ! k))))
       [0..<length final]"
proof (induction final arbitrary: i height)
  case Nil
  show ?case by simp
next
  case (Cons entry final)
  obtain name d where entry: "entry = (name, d)" by (cases entry)
  have "[0..<length (entry # final)] = 0 # map Suc [0..<length final]"
    by (simp add: upt_conv_Cons map_Suc_upt del: upt_Suc)
  then show ?case
    by (simp add: entry Cons.IH comp_def algebra_simps del: upt_Suc)
qed

lemma draw_lines_length [simp]: "length (draw_lines i height final) = length final"
  by (simp add: draw_lines_eq)

lemma draw_lines_no_page: "ShowPage \<notin> set (draw_lines i height final)"
  by (auto simp: draw_lines_eq)

lemma page_count_render: "page_count (render final) = 1"
proof -
  have "filter (\<lambda>op. op = ShowPage) (draw_lines 1 750 final) = []"
    using draw_lines_no_page [of 1 750 final] by (auto simp: filter_empty_conv)
  then show ?thesis by (simp add: page_count_def render_def)
qed

lemma render_nth:
  assumes "k < length final"
  shows "render final ! (3 + k) =
           DrawString 75 (750 - 25 * int k)
             (line_text (k + 1) (fst (final ! k)) (snd (final ! k)))"
proof -
  have "render final ! (3 + k) = (draw_lines 1 750 final @ [ShowPage, Save]) ! k"
    by (simp add: render_def)
  also have "\<dots> = draw_lines 1 750 final ! k"
    using assms by (simp add: nth_append)
  also have "\<dots> = DrawString 75 (750 - 25 * int k)
             (line_text (k + 1) (fst (final ! k)) (snd (final ! k)))"
    using assms by (simp add: draw_lines_eq)
  finally show ?thesis .
qed

lemma download_cart_content:
  "content (download_cart db user) = render (aggregate (cart_items db user))"
  by (simp add: download_cart_def)

text \<open>
  Claim C4, as amended.  The title is drawn once, then line \<open>k + 1\<close> of the list is
  drawn at \<open>x = 75\<close> and \<open>y = 750 - 25 * k\<close> with the text
  \<^verbatim>\<open>{k + 1}. {name} - {amount} {unit}\<close>, and the page is ended once, after the last line:
  the document has one page whatever the length of the list, and from the 32nd line on
  the text is drawn below the lower edge of the page.
\<close>

theorem render_single_page:
  "render final =
     [SetFont ''Handicraft'' 24, DrawString 200 800 title, SetFont ''Handicraft'' 16]
     @ map (\<lambda>k. DrawString 75 (750 - 25 * int k)
                   (str_nat (k + 1) @ ''. '' @ fst (final ! k) @ '' - ''
                    @ str_decimal (amount (snd (final ! k))) @ '' '' @ unit (snd (final ! k))))
         [0..<length final]
     @ [ShowPage, Save]
   \<and> page_count (render final) = 1
   \<and> (\<forall>k. k < length final \<longrightarrow> (below_page (render final ! (3 + k)) \<longleftrightarrow> 31 \<le> k))"
proof (intro conjI allI impI)
  show "render final =
     [SetFont ''Handicraft'' 24, DrawString 200 800 title, SetFont ''Handicraft'' 16]
     @ map (\<lambda>k. DrawString 75 (750 - 25 * int k)
                   (str_nat (k + 1) @ ''. '' @ fst (final ! k) @ '' - ''
                    @ str_decimal (amount (snd (final ! k))) @ '' '' @ unit (snd (final ! k))))
         [0..<length final]
     @ [ShowPage, Save]"
    by (simp add: render_def draw_lines_eq line_text_def)
  show "page_count (render final) = 1"
    by (rule page_count_render)
next
  fix k assume "k < length final"
  then show "below_page (render final ! (3 + k)) \<longleftrightarrow> 31 \<le> k"
    by (auto simp: render_nth)
qed

theorem render_single_page_witness:
  "(1 :: nat) < length example_final
   \<and> render example_final ! (3 + 1) = DrawString 75 725 ''2. sugar - 2.00 g''
   \<and> \<not> below_page (render example_final ! (3 + 1))
   \<and> page_count (render example_final) = 1"
proof -
  have k: "(1 :: nat) < length example_final"
    by (simp add: example_final_def)
  note inst = render_single_page [of example_final]
  from inst k have "below_page (render example_final ! (3 + 1)) \<longleftrightarrow> (31 :: nat) \<le> 1"
    by blast
  then have above: "\<not> below_page (render example_final ! (3 + 1))"
    by simp
  from inst have "render example_final =
     [SetFont ''Handicraft'' 24, DrawString 200 800 title, SetFont ''Handicraft'' 16]
     @ map (\<lambda>k. DrawString 75 (750 - 25 * int k)
                   (str_nat (k + 1) @ ''. '' @ fst (example_final ! k) @ '' - ''
                    @ str_decimal (amount (snd (example_final ! k))) @ '' ''
                    @ unit (snd (example_final ! k))))
         [0..<length example_final]
     @ [ShowPage, Save]"
    by blast
  then have line: "render example_final ! (3 + 1) = DrawString 75 725 ''2. sugar - 2.00 g''"
    by (simp add: example_final_def str_decimal_def str_nat.simps upt_rec)
  from inst have "page_count (render example_final) = 1"
    by blast
  with k above line show ?thesis by blast
qed

text \<open>
  A list of thirty-two entries: the last line is drawn at the height \<open>- 25\<close>, below the
  page, and the document still has its one page.
\<close>

lemma example_long_list_length: "length example_long_list = 32"
  by (simp add: example_long_list_def)

lemma example_long_list_distinct: "distinct (map fst example_long_list)"
  by (simp add: example_long_list_def str_nat.simps upt_rec)

theorem render_no_new_page:
  "length example_long_list = 32
   \<and> page_count (render example_long_list) = 1
   \<and> render example_long_list ! 34 = DrawString 75 (- 25) ''32. item32 - 1.50 g''
   \<and> below_page (render example_long_list ! 34)"
proof -
  have k: "31 < length example_long_list"
    by (simp add: example_long_list_length)
  have entry: "example_long_list ! 31 = (''item32'', \<lparr>unit = ''g'', amount = Decimal 150 (- 2)\<rparr>)"
    by (simp add: example_long_list_def str_nat.simps)
  have line: "line_text 32 ''item32'' \<lparr>unit = ''g'', amount = Decimal 150 (- 2)\<rparr>
      = ''32. item32 - 1.50 g''"
    by (simp add: line_text_def str_decimal_def str_nat.simps)
  have "render example_long_list ! (3 + 31) = DrawString 75 (- 25) ''32. item32 - 1.50 g''"
    by (simp only: render_nth [OF k] entry fst_conv snd_conv) (simp add: line)
  then have nth: "render example_long_list ! 34 = DrawString 75 (- 25) ''32. item32 - 1.50 g''"
    by simp
  show ?thesis
    by (simp add: example_long_list_length page_count_render nth)
qed

end
